theory Spec2Isabelle
  imports Complex_Main "HOL-Library.Log_Nat"
begin

section \<open>The Home page of src/app/page.tsx\<close>

text \<open>
  The page component \<open>Home\<close> keeps its data in React state hooks, reads the form through
  \<open>watch()\<close>, and runs five effects: three fetchers (institutions, recipient name, rate),
  the fee calculation and the page-loading flag.  The state is a record, each effect is a
  function from state to state, promises are split at their \<open>await\<close>, and timers live in
  an explicit timer table.
\<close>

subsection \<open>JavaScript numbers\<close>

text \<open>
  A \<open>number\<close> is \<open>NaN\<close>, an infinity or a finite binary64 value, held as the rational it
  denotes.  Every operation computes the exact result and rounds it to binary64
  (\<open>binary64\<close> below).  The sign of zero is not kept: no operation of this page tells
  the two zeros apart (\<open>toFixed\<close> prints both as \<open>0\<close>, and the divisor
  \<open>Number(bigint)\<close> is never \<open>-0\<close>).
\<close>

datatype number = NaN | Infinity | NegInfinity | Fin rat

text \<open>
  The binary exponent of a positive value: \<open>e\<close> with \<open>2^e \<le> y < 2^(e+1)\<close>, read off the
  bit length of the integer part, or of the reciprocal when the value is below 1.
\<close>

definition exponent :: "rat \<Rightarrow> int" where
  "exponent y = (if 1 \<le> y then bitlen \<lfloor>y\<rfloor> - 1 else - bitlen (\<lceil>1 / y\<rceil> - 1))"

text \<open>Rounding to the nearest integer, a tie going to the even neighbour.\<close>

definition round_half_even :: "rat \<Rightarrow> int" where
  "round_half_even y =
     (let f = \<lfloor>y\<rfloor>; r = y - of_int f
      in if r < 1 / 2 then f else if 1 / 2 < r then f + 1 else if even f then f else f + 1)"

definition binary64_limit :: rat where
  "binary64_limit = 2 ^ 1024"

text \<open>
  Rounding to binary64, as IEEE 754 round-to-nearest, ties-to-even does: 53 significant
  bits, the exponent not below \<open>-1022\<close> (below it the spacing stays \<open>2^-1074\<close>: gradual
  underflow), and infinity when the rounded magnitude reaches \<open>2^1024\<close>.
\<close>

definition binary64 :: "rat \<Rightarrow> number" where
  "binary64 x =
     (if x = 0 then Fin 0
      else
        let y = \<bar>x\<bar>;
            e = max (exponent y) (- 1022);
            q = e - 52;
            r = of_int (round_half_even (y / 2 powi q)) * 2 powi q
        in if binary64_limit \<le> r then (if x < 0 then NegInfinity else Infinity)
           else Fin (if x < 0 then - r else r))"

fun negative :: "number \<Rightarrow> bool" where
  "negative (Fin x) = (x < 0)"
| "negative NegInfinity = True"
| "negative _ = False"

definition signed_infinity :: "bool \<Rightarrow> number" where
  "signed_infinity neg = (if neg then NegInfinity else Infinity)"

text \<open>The operator \<open>*\<close>: NaN is contagious, and infinity times zero is NaN.\<close>

fun num_times :: "number \<Rightarrow> number \<Rightarrow> number" where
  "num_times NaN b = NaN"
| "num_times a NaN = NaN"
| "num_times (Fin x) (Fin y) = binary64 (x * y)"
| "num_times a b =
     (if a = Fin 0 \<or> b = Fin 0 then NaN
      else signed_infinity (negative a \<noteq> negative b))"

text \<open>
  The operator \<open>/\<close>: \<open>0 / 0\<close> and \<open>Infinity / Infinity\<close> are NaN, a non-zero value over
  zero is an infinity, a finite value over an infinity is zero.
\<close>

fun num_divide :: "number \<Rightarrow> number \<Rightarrow> number" where
  "num_divide NaN b = NaN"
| "num_divide a NaN = NaN"
| "num_divide (Fin x) (Fin y) =
     (if y = 0 then (if x = 0 then NaN else signed_infinity (x < 0)) else binary64 (x / y))"
| "num_divide (Fin x) b = Fin 0"
| "num_divide a (Fin y) = signed_infinity (negative a \<noteq> (y < 0))"
| "num_divide a b = NaN"

text \<open>
  \<open>Number(v)\<close> at the two places the page calls it: on a component of the fee details
  (a bigint, or \<open>undefined\<close> while the contract read is pending) and on the watched
  amount (a number, or \<open>undefined\<close>).  \<open>Number(undefined)\<close> is NaN; a bigint becomes
  the nearest binary64 number.
\<close>

definition Number_bigint :: "int option \<Rightarrow> number" where
  "Number_bigint v = (case v of None \<Rightarrow> NaN | Some n \<Rightarrow> binary64 (of_int n))"

definition Number_number :: "number option \<Rightarrow> number" where
  "Number_number v = (case v of None \<Rightarrow> NaN | Some n \<Rightarrow> n)"

subsection \<open>Number.prototype.toFixed and parseFloat\<close>

text \<open>
  \<open>toFixed\<close> works on the exact value of its number.  The text it returns is a character
  string, except for a finite value of magnitude \<open>10^21\<close> or more, where ECMA-262 hands
  over to \<open>Number::toString\<close>: that text (exponent notation, the shortest digits that
  identify the binary64 value) is kept as \<open>NumberToString x\<close>, and \<open>parseFloat\<close> reads it
  back as \<open>x\<close>, as the standard guarantees for every number other than \<open>-0\<close>.
\<close>

datatype jsstring = Chars string | NumberToString rat

definition digit_char :: "nat \<Rightarrow> char" where
  "digit_char d = char_of (48 + d)"

fun digits :: "nat \<Rightarrow> string" where
  "digits n = (if n < 10 then [digit_char n] else digits (n div 10) @ [digit_char (n mod 10)])"

declare digits.simps [simp del]

definition toFixed :: "number \<Rightarrow> nat \<Rightarrow> jsstring" where
  "toFixed x f =
     (case x of
        NaN \<Rightarrow> Chars ''NaN''
      | Infinity \<Rightarrow> Chars ''Infinity''
      | NegInfinity \<Rightarrow> Chars ''-Infinity''
      | Fin r \<Rightarrow>
          (let s = (if r < 0 then ''-'' else '''');
               y = \<bar>r\<bar>
           in if 10 ^ 21 \<le> y then NumberToString r
              else
                let n = nat \<lfloor>y * 10 ^ f + 1 / 2\<rfloor>;
                    m = (if n = 0 then ''0'' else digits n);
                    k = length m;
                    m = (if k \<le> f then replicate (f + 1 - k) (CHR ''0'') @ m else m);
                    k = (if k \<le> f then f + 1 else k)
                in if f \<noteq> 0
                   then Chars (s @ take (k - f) m @ ''.'' @ drop (k - f) m)
                   else Chars (s @ m)))"

definition is_digit :: "char \<Rightarrow> bool" where
  "is_digit c = (48 \<le> (of_char c :: nat) \<and> (of_char c :: nat) \<le> 57)"

text \<open>White space: the ASCII members of the standard's list.\<close>

definition is_space :: "char \<Rightarrow> bool" where
  "is_space c = ((of_char c :: nat) \<in> {9, 10, 11, 12, 13, 32})"

definition digit_value :: "char \<Rightarrow> nat" where
  "digit_value c = of_char c - 48"

definition decimal_value :: "string \<Rightarrow> nat" where
  "decimal_value ds = foldl (\<lambda>acc c. 10 * acc + digit_value c) 0 ds"

text \<open>The optional exponent part \<open>e\<close>, sign, digits: the factor it stands for.\<close>

definition exponent_factor :: "string \<Rightarrow> rat" where
  "exponent_factor r =
     (case r of
        [] \<Rightarrow> 1
      | c # r1 \<Rightarrow>
          if c = CHR ''e'' \<or> c = CHR ''E'' then
            (let neg = (case r1 of [] \<Rightarrow> False | d # _ \<Rightarrow> d = CHR ''-'');
                 r2 = (case r1 of [] \<Rightarrow> []
                       | d # r' \<Rightarrow> if d = CHR ''-'' \<or> d = CHR ''+'' then r' else r1);
                 ds = takeWhile is_digit r2
             in if ds = [] then 1
                else if neg then 1 / 10 ^ decimal_value ds
                else 10 ^ decimal_value ds)
          else 1)"

text \<open>
  \<open>parseFloat\<close>: skip leading white space, then read the longest prefix that is a
  decimal literal (sign, \<open>Infinity\<close> or digits with an optional fraction and exponent);
  NaN when there is none.  The result is the binary64 number nearest to the value of the
  literal.
\<close>

definition parseFloat :: "jsstring \<Rightarrow> number" where
  "parseFloat t =
     (case t of
        NumberToString x \<Rightarrow> Fin x
      | Chars s \<Rightarrow>
          (let s1 = dropWhile is_space s;
               neg = (case s1 of [] \<Rightarrow> False | c # _ \<Rightarrow> c = CHR ''-'');
               s2 = (case s1 of [] \<Rightarrow> []
                     | c # r \<Rightarrow> if c = CHR ''-'' \<or> c = CHR ''+'' then r else s1)
           in if take 8 s2 = ''Infinity'' then signed_infinity neg
              else
                let ip = takeWhile is_digit s2;
                    r = dropWhile is_digit s2;
                    dot = (case r of [] \<Rightarrow> False | c # _ \<Rightarrow> c = CHR ''.'');
                    fp = (if dot then takeWhile is_digit (tl r) else []);
                    r2 = (if dot then dropWhile is_digit (tl r) else r)
                in if ip = [] \<and> fp = [] then NaN
                   else
                     let mag = (of_nat (decimal_value ip)
                                + of_nat (decimal_value fp) / 10 ^ length fp)
                               * exponent_factor r2
                     in binary64 (if neg then - mag else mag)))"



subsection \<open>The component's data\<close>

text \<open>
  Modelled from the spec: the types \<open>FormData\<close> and \<open>InstitutionProps\<close> are declared in
  \<open>./types\<close>, which is not part of the sources; their fields are those the specification
  lists and \<open>INITIAL_FORM_STATE\<close> initialises.
\<close>

record FormData =
  network :: string
  token :: string
  amount :: number
  currency :: string
  institution :: string
  accountIdentifier :: string
  recipientName :: string
  memo :: string

record InstitutionProps =
  name :: string
  code :: string

definition INITIAL_FORM_STATE :: FormData where
  "INITIAL_FORM_STATE =
     \<lparr>network = '''', token = '''', amount = Fin 0, currency = '''', institution = '''',
      accountIdentifier = '''', recipientName = '''', memo = ''''\<rparr>"

datatype TransactionStatus =
  idle | pending | processing | fulfilled | validated | settled | refunded

text \<open>The \<open>useState\<close> hooks of \<open>Home\<close>, in the order of their declaration.\<close>

record Home =
  isPageLoading :: bool
  isFetchingInstitutions :: bool
  isFetchingRate :: bool
  isFetchingRecipientName :: bool
  protocolFeePercent :: number
  fee :: number
  rate :: number
  recipientName :: string
  formValues :: FormData
  institutions :: "InstitutionProps list"
  selectedNetwork :: string
  selectedTab :: string
  transactionStatus :: TransactionStatus
  createdAt :: string
  orderId :: string

text \<open>The initial values passed to \<open>useState\<close>.\<close>

definition Home_initial :: Home where
  "Home_initial =
     \<lparr>isPageLoading = True, isFetchingInstitutions = False, isFetchingRate = False,
      isFetchingRecipientName = False, protocolFeePercent = Fin 0, fee = Fin 0, rate = Fin 0,
      recipientName = '''', formValues = INITIAL_FORM_STATE, institutions = [],
      selectedNetwork = ''base'', selectedTab = ''bank-transfer'', transactionStatus = idle,
      createdAt = '''', orderId = ''''\<rparr>"

text \<open>
  What \<open>watch()\<close> returns for the five fields the component destructures.  A field the
  form has not registered yet is \<open>undefined\<close>: \<open>None\<close>.
\<close>

record watched =
  currency :: "string option"
  amount :: "number option"
  token :: "string option"
  accountIdentifier :: "string option"
  institution :: "string option"

text \<open>JavaScript truthiness, as the guards \<open>!currency\<close>, \<open>!amount\<close> use it.\<close>

definition truthy_string :: "string option \<Rightarrow> bool" where
  "truthy_string v = (case v of None \<Rightarrow> False | Some s \<Rightarrow> s \<noteq> [])"

definition truthy_number :: "number option \<Rightarrow> bool" where
  "truthy_number v = (case v of None \<Rightarrow> False | Some n \<Rightarrow> n \<noteq> NaN \<and> n \<noteq> Fin 0)"

subsection \<open>The fee calculation\<close>

text \<open>
  The effect with dependencies \<open>[protocolFeeDetails, amount, protocolFeePercent]\<close>.
  \<open>protocolFeeDetails\<close> is the pair the contract read returns, \<open>undefined\<close> until it
  resolves.  Both setters are called in the same run; the \<open>protocolFeePercent\<close> the
  second one reads is the value of the render the effect belongs to, that is, of the
  state the run starts from.  \<open>amount'\<close> is the watched \<open>amount\<close>.
\<close>

definition feeEffect :: "(int \<times> int) option \<Rightarrow> number option \<Rightarrow> Home \<Rightarrow> Home" where
  "feeEffect protocolFeeDetails amount' s =
     s\<lparr>protocolFeePercent :=
         num_divide (Number_bigint (map_option fst protocolFeeDetails))
                    (Number_bigint (map_option snd protocolFeeDetails)),
       fee :=
         parseFloat (toFixed (num_times (protocolFeePercent s) (Number_number amount')) 5)\<rparr>"

subsection \<open>View selection\<close>

text \<open>
  What the component returns: the preloader with its flag, and one animated page, named
  by its key.
\<close>

datatype page = transaction_status | transaction_form | transaction_preview

datatype js_value = String string | Number number

definition Object_values :: "FormData \<Rightarrow> js_value list" where
  "Object_values v =
     [String (network v), String (FormData.token v), Number (FormData.amount v),
      String (FormData.currency v), String (FormData.institution v),
      String (FormData.accountIdentifier v), String (FormData.recipientName v),
      String (memo v)]"

definition formValues_empty :: "FormData \<Rightarrow> bool" where
  "formValues_empty v =
     list_all (\<lambda>x. x = String '''' \<or> x = Number (Fin 0)) (Object_values v)"

record rendered =
  preloader :: bool
  animated_page :: page

definition render :: "Home \<Rightarrow> rendered" where
  "render s =
     \<lparr>preloader = isPageLoading s,
      animated_page =
        (if transactionStatus s \<noteq> idle then transaction_status
         else if formValues_empty (formValues s) then transaction_form
         else transaction_preview)\<rparr>"

text \<open>The three handlers that write \<open>formValues\<close> and \<open>transactionStatus\<close>.\<close>

definition onSubmit :: "FormData \<Rightarrow> Home \<Rightarrow> Home" where
  "onSubmit data s = s\<lparr>formValues := data\<rparr>"

definition clearForm :: "Home \<Rightarrow> Home" where
  "clearForm s = s\<lparr>formValues := INITIAL_FORM_STATE\<rparr>"

definition clearTransactionStatus :: "Home \<Rightarrow> Home" where
  "clearTransactionStatus s = s\<lparr>transactionStatus := idle\<rparr>"

subsection \<open>Promises, requests and the console\<close>

text \<open>
  The aggregator client (\<open>./api/aggregator\<close>) is outside the sources: a call is recorded
  as an outbound request with the time it is issued at, and its promise settles with a
  value or is rejected with an error.  \<open>fetchRate\<close> resolves to an object whose \<open>data\<close>
  field is the rate; \<open>Resolve\<close> carries that field.
\<close>

datatype request =
    fetchSupportedInstitutions string
  | fetchAccountName string string
  | fetchRate string number string

datatype 'a outcome = Resolve 'a | Reject string

datatype callback = getRecipientName_closure watched | getRate_closure watched

record timer =
  timer_id :: nat
  due :: nat
  callback :: callback

text \<open>
  The component in its environment: the React state, the console, the requests sent so
  far, the clock (milliseconds), the timer table, the watched values of the last
  committed render (what React compares dependency lists against), and the
  \<open>timeoutId\<close> variable of the latest recipient-name and rate effect, which their
  clean-up functions close over.
\<close>

record world =
  home :: Home
  console :: "string list"
  outbound :: "(nat \<times> request) list"
  now :: nat
  next_timer_id :: nat
  timers :: "timer list"
  rendered_with :: "watched option"
  recipientName_timeoutId :: "nat option"
  rate_timeoutId :: "nat option"

definition world_initial :: world where
  "world_initial =
     \<lparr>home = Home_initial, console = [], outbound = [], now = 0, next_timer_id = 1,
      timers = [], rendered_with = None, recipientName_timeoutId = None,
      rate_timeoutId = None\<rparr>"

definition setTimeout :: "callback \<Rightarrow> nat \<Rightarrow> world \<Rightarrow> nat \<times> world" where
  "setTimeout cb delay w =
     (next_timer_id w,
      w\<lparr>timers := timers w @ [\<lparr>timer_id = next_timer_id w, due = now w + delay, callback = cb\<rparr>],
        next_timer_id := next_timer_id w + 1\<rparr>)"

text \<open>\<open>clearTimeout(undefined)\<close>, and clearing a timer that has fired, do nothing.\<close>

definition clearTimeout :: "nat option \<Rightarrow> world \<Rightarrow> world" where
  "clearTimeout timeoutId w =
     w\<lparr>timers := filter (\<lambda>t. Some (timer_id t) \<noteq> timeoutId) (timers w)\<rparr>"

subsection \<open>The three fetchers\<close>

text \<open>
  Each fetcher is an async function.  Its first half runs up to the \<open>await\<close>: \<open>None\<close> when
  the guard returns early, otherwise the world with the loading flag set and the request
  sent.  Its second half runs when the promise settles: the \<open>try\<close> branch on a value, the
  \<open>catch\<close> branch on a rejection.
\<close>

definition getInstitutions_call :: "watched \<Rightarrow> world \<Rightarrow> world option" where
  "getInstitutions_call v w =
     (if \<not> truthy_string (currency v) then None
      else
        (case currency v of
           Some c \<Rightarrow>
             Some (w\<lparr>home := (home w)\<lparr>isFetchingInstitutions := True\<rparr>,
                     outbound := outbound w @ [(now w, fetchSupportedInstitutions c)]\<rparr>)
         | None \<Rightarrow> None))"

definition getInstitutions_settled :: "InstitutionProps list outcome \<Rightarrow> world \<Rightarrow> world" where
  "getInstitutions_settled r w =
     (case r of
        Resolve found \<Rightarrow>
          w\<lparr>home := (home w)\<lparr>institutions := found, isFetchingInstitutions := False\<rparr>\<rparr>
      | Reject error \<Rightarrow> w\<lparr>console := console w @ [error]\<rparr>)"

definition getInstitutions :: "watched \<Rightarrow> InstitutionProps list outcome \<Rightarrow> world \<Rightarrow> world" where
  "getInstitutions v r w =
     (case getInstitutions_call v w of
        None \<Rightarrow> w
      | Some w' \<Rightarrow> getInstitutions_settled r w')"

definition getRecipientName_call :: "watched \<Rightarrow> world \<Rightarrow> world option" where
  "getRecipientName_call v w =
     (if \<not> truthy_string (accountIdentifier v) \<or> \<not> truthy_string (institution v) then None
      else
        (case (institution v, accountIdentifier v) of
           (Some i, Some a) \<Rightarrow>
             Some (w\<lparr>home := (home w)\<lparr>isFetchingRecipientName := True\<rparr>,
                     outbound := outbound w @ [(now w, fetchAccountName i a)]\<rparr>)
         | _ \<Rightarrow> None))"

definition getRecipientName_settled :: "string outcome \<Rightarrow> world \<Rightarrow> world" where
  "getRecipientName_settled r w =
     (case r of
        Resolve accountName \<Rightarrow>
          w\<lparr>home := (home w)\<lparr>recipientName := accountName, isFetchingRecipientName := False\<rparr>\<rparr>
      | Reject error \<Rightarrow>
          w\<lparr>home := (home w)\<lparr>recipientName := '''', isFetchingRecipientName := False\<rparr>\<rparr>)"

definition getRecipientName :: "watched \<Rightarrow> string outcome \<Rightarrow> world \<Rightarrow> world" where
  "getRecipientName v r w =
     (case getRecipientName_call v w of
        None \<Rightarrow> w
      | Some w' \<Rightarrow> getRecipientName_settled r w')"

text \<open>The request is built with the literal \<open>"USDT"\<close> as its token.\<close>

definition getRate_call :: "watched \<Rightarrow> world \<Rightarrow> world option" where
  "getRate_call v w =
     (if \<not> truthy_string (currency v) \<or> \<not> truthy_number (amount v) \<or> \<not> truthy_string (token v)
      then None
      else
        (case (currency v, amount v) of
           (Some c, Some a) \<Rightarrow>
             Some (w\<lparr>home := (home w)\<lparr>isFetchingRate := True\<rparr>,
                     outbound := outbound w @ [(now w, fetchRate ''USDT'' a c)]\<rparr>)
         | _ \<Rightarrow> None))"

definition getRate_settled :: "number outcome \<Rightarrow> world \<Rightarrow> world" where
  "getRate_settled r w =
     (case r of
        Resolve data \<Rightarrow> w\<lparr>home := (home w)\<lparr>rate := data, isFetchingRate := False\<rparr>\<rparr>
      | Reject error \<Rightarrow> w\<lparr>console := console w @ [error]\<rparr>)"

definition getRate :: "watched \<Rightarrow> number outcome \<Rightarrow> world \<Rightarrow> world" where
  "getRate v r w =
     (case getRate_call v w of
        None \<Rightarrow> w
      | Some w' \<Rightarrow> getRate_settled r w')"

text \<open>A call whose promise nobody awaits: the world after its first half.\<close>

definition started :: "world option \<Rightarrow> world \<Rightarrow> world" where
  "started r w = (case r of None \<Rightarrow> w | Some w' \<Rightarrow> w')"

subsection \<open>The effects\<close>

text \<open>
  The institutions effect calls \<open>getInstitutions()\<close> directly.  The recipient-name and rate
  effects declare \<open>timeoutId\<close> (undefined), call their debounce function once, and return
  a clean-up that clears \<open>timeoutId\<close>.
\<close>

definition institutions_effect :: "watched \<Rightarrow> world \<Rightarrow> world" where
  "institutions_effect v w = started (getInstitutions_call v w) w"

definition debounceFetchRecipientName :: "watched \<Rightarrow> nat option \<Rightarrow> world \<Rightarrow> nat \<times> world" where
  "debounceFetchRecipientName v timeoutId w =
     setTimeout (getRecipientName_closure v) 1000 (clearTimeout timeoutId w)"

definition recipientName_effect :: "watched \<Rightarrow> world \<Rightarrow> world" where
  "recipientName_effect v w =
     (case debounceFetchRecipientName v None w of
        (timeoutId, w') \<Rightarrow> w'\<lparr>recipientName_timeoutId := Some timeoutId\<rparr>)"

definition recipientName_cleanup :: "world \<Rightarrow> world" where
  "recipientName_cleanup w = clearTimeout (recipientName_timeoutId w) w"

definition debounceFetchRate :: "watched \<Rightarrow> nat option \<Rightarrow> world \<Rightarrow> nat \<times> world" where
  "debounceFetchRate v timeoutId w =
     setTimeout (getRate_closure v) 1000 (clearTimeout timeoutId w)"

definition rate_effect :: "watched \<Rightarrow> world \<Rightarrow> world" where
  "rate_effect v w =
     (case debounceFetchRate v None w of
        (timeoutId, w') \<Rightarrow> w'\<lparr>rate_timeoutId := Some timeoutId\<rparr>)"

definition rate_cleanup :: "world \<Rightarrow> world" where
  "rate_cleanup w = clearTimeout (rate_timeoutId w) w"

definition pageLoading_effect :: "world \<Rightarrow> world" where
  "pageLoading_effect w = w\<lparr>home := (home w)\<lparr>isPageLoading := False\<rparr>\<rparr>"

text \<open>
  The dependency lists: \<open>[currency]\<close>, \<open>[accountIdentifier]\<close>,
  \<open>[currency, amount, token]\<close> and \<open>[]\<close>.  React runs an effect after the first render and
  after each render in which some dependency differs from the previous one.
\<close>

definition institutions_deps_changed :: "watched option \<Rightarrow> watched \<Rightarrow> bool" where
  "institutions_deps_changed prev v =
     (case prev of None \<Rightarrow> True | Some p \<Rightarrow> currency p \<noteq> currency v)"

definition recipientName_deps_changed :: "watched option \<Rightarrow> watched \<Rightarrow> bool" where
  "recipientName_deps_changed prev v =
     (case prev of None \<Rightarrow> True | Some p \<Rightarrow> accountIdentifier p \<noteq> accountIdentifier v)"

definition rate_deps_changed :: "watched option \<Rightarrow> watched \<Rightarrow> bool" where
  "rate_deps_changed prev v =
     (case prev of
        None \<Rightarrow> True
      | Some p \<Rightarrow> currency p \<noteq> currency v \<or> amount p \<noteq> amount v \<or> token p \<noteq> token v)"

text \<open>
  Committing a render with watched values \<open>v\<close>: the clean-ups of the effects whose
  dependencies changed (none on the first render), then their bodies, in the order of
  declaration.  The fee effect is not part of it: it reads the contract data and the
  state, touches neither timers nor requests, and is modelled by \<open>feeEffect\<close> alone.
\<close>

definition commit :: "watched \<Rightarrow> world \<Rightarrow> world" where
  "commit v w =
     (let prev = rendered_with w;
          w1 = (if prev \<noteq> None \<and> recipientName_deps_changed prev v
                then recipientName_cleanup w else w);
          w2 = (if prev \<noteq> None \<and> rate_deps_changed prev v then rate_cleanup w1 else w1);
          w3 = (if institutions_deps_changed prev v then institutions_effect v w2 else w2);
          w4 = (if recipientName_deps_changed prev v then recipientName_effect v w3 else w3);
          w5 = (if rate_deps_changed prev v then rate_effect v w4 else w4);
          w6 = (if prev = None then pageLoading_effect w5 else w5)
      in w6\<lparr>rendered_with := Some v\<rparr>)"

subsection \<open>Time and events\<close>

definition run_callback :: "callback \<Rightarrow> world \<Rightarrow> world" where
  "run_callback cb w =
     (case cb of
        getRecipientName_closure v \<Rightarrow> started (getRecipientName_call v w) w
      | getRate_closure v \<Rightarrow> started (getRate_call v w) w)"

definition fire :: "timer \<Rightarrow> world \<Rightarrow> world" where
  "fire t w = run_callback (callback t) (w\<lparr>now := max (now w) (due t)\<rparr>)"

text \<open>
  Letting \<open>d\<close> milliseconds pass: the timers that fall due fire in the order of their due
  time, each at its due time.  No callback of this page sets or clears a timer, so the
  timers that fire are those due when the wait begins.
\<close>

definition elapse :: "nat \<Rightarrow> world \<Rightarrow> world" where
  "elapse d w =
     (let target = now w + d;
          ready = sort_key due (filter (\<lambda>t. due t \<le> target) (timers w));
          w1 = w\<lparr>timers := filter (\<lambda>t. \<not> due t \<le> target) (timers w)\<rparr>
      in (fold fire ready w1)\<lparr>now := target\<rparr>)"

datatype event =
    Render watched
  | Elapse nat
  | Institutions_settle "InstitutionProps list outcome"
  | RecipientName_settle "string outcome"
  | Rate_settle "number outcome"

fun step :: "event \<Rightarrow> world \<Rightarrow> world" where
  "step (Render v) w = commit v w"
| "step (Elapse d) w = elapse d w"
| "step (Institutions_settle r) w = getInstitutions_settled r w"
| "step (RecipientName_settle r) w = getRecipientName_settled r w"
| "step (Rate_settle r) w = getRate_settled r w"

definition run :: "event list \<Rightarrow> world \<Rightarrow> world" where
  "run es w = fold step es w"

text \<open>The institutions requests among the requests sent.\<close>

fun is_institutions_request :: "nat \<times> request \<Rightarrow> bool" where
  "is_institutions_request (t, fetchSupportedInstitutions c) = True"
| "is_institutions_request (t, other) = False"

definition institutions_requests :: "world \<Rightarrow> (nat \<times> request) list" where
  "institutions_requests w = filter is_institutions_request (outbound w)"

text \<open>
  What a fetcher with no timer sends over a sequence of events, read off the events alone:
  one request at the time of each render whose \<open>currency\<close> is non-empty and differs from
  that of the render before (the first render counts as a change), and nothing else.
  \<open>t\<close> is the time at which the events begin, \<open>prev\<close> the watched values of the last
  render before them.
\<close>

fun immediate_institutions_fetches ::
    "event list \<Rightarrow> nat \<Rightarrow> watched option \<Rightarrow> (nat \<times> request) list" where
  "immediate_institutions_fetches [] t prev = []"
| "immediate_institutions_fetches (Render v # es) t prev =
     (case currency v of
        None \<Rightarrow> []
      | Some c \<Rightarrow>
          if c \<noteq> [] \<and> institutions_deps_changed prev v
          then [(t, fetchSupportedInstitutions c)] else [])
     @ immediate_institutions_fetches es t (Some v)"
| "immediate_institutions_fetches (Elapse d # es) t prev =
     immediate_institutions_fetches es (t + d) prev"
| "immediate_institutions_fetches (e # es) t prev = immediate_institutions_fetches es t prev"

subsection \<open>Interleavings of the three fetchers\<close>

text \<open>
  A fetcher takes two steps, its call and the settling of its promise; between the two,
  steps of the other fetchers may run.  An interleaving is a list of such steps.
\<close>

datatype fetcher = Institutions | RecipientName | Rate

datatype fetcher_step =
    institutions_call watched
  | institutions_settled "InstitutionProps list outcome"
  | recipientName_call watched
  | recipientName_settled "string outcome"
  | rate_call watched
  | rate_settled "number outcome"

fun fetcher_of :: "fetcher_step \<Rightarrow> fetcher" where
  "fetcher_of (institutions_call v) = Institutions"
| "fetcher_of (institutions_settled r) = Institutions"
| "fetcher_of (recipientName_call v) = RecipientName"
| "fetcher_of (recipientName_settled r) = RecipientName"
| "fetcher_of (rate_call v) = Rate"
| "fetcher_of (rate_settled r) = Rate"

fun apply_step :: "fetcher_step \<Rightarrow> world \<Rightarrow> world" where
  "apply_step (institutions_call v) w = started (getInstitutions_call v w) w"
| "apply_step (institutions_settled r) w = getInstitutions_settled r w"
| "apply_step (recipientName_call v) w = started (getRecipientName_call v w) w"
| "apply_step (recipientName_settled r) w = getRecipientName_settled r w"
| "apply_step (rate_call v) w = started (getRate_call v w) w"
| "apply_step (rate_settled r) w = getRate_settled r w"

definition interleaving :: "fetcher_step list \<Rightarrow> world \<Rightarrow> world" where
  "interleaving steps w = fold apply_step steps w"

text \<open>The steps one fetcher contributes to an interleaving, in their order.\<close>

definition steps_of :: "fetcher \<Rightarrow> fetcher_step list \<Rightarrow> fetcher_step list" where
  "steps_of f steps = filter (\<lambda>x. fetcher_of x = f) steps"

text \<open>The two state slots of a fetcher, and the state outside all six slots.\<close>

fun slots :: "fetcher \<Rightarrow> Home \<Rightarrow> (InstitutionProps list + string + number) \<times> bool" where
  "slots Institutions s = (Inl (institutions s), isFetchingInstitutions s)"
| "slots RecipientName s = (Inr (Inl (Home.recipientName s)), isFetchingRecipientName s)"
| "slots Rate s = (Inr (Inr (rate s)), isFetchingRate s)"

definition outside_slots :: "Home \<Rightarrow> Home" where
  "outside_slots s =
     s\<lparr>institutions := [], isFetchingInstitutions := False, Home.recipientName := '''',
       isFetchingRecipientName := False, rate := NaN, isFetchingRate := False\<rparr>"

subsection \<open>Concrete inputs\<close>

text \<open>
  The form at the first render, with no field registered yet.  A form as a user fills it
  in: naira, 100 USDC, an account at one bank.  The same form before the bank is chosen,
  with another bank, and with another currency.
\<close>

definition blank_form :: watched where
  "blank_form =
     \<lparr>currency = None, amount = None, token = None, accountIdentifier = None,
      institution = None\<rparr>"

definition filled_form :: watched where
  "filled_form =
     \<lparr>currency = Some ''NGN'', amount = Some (Fin 100), token = Some ''USDC'',
      accountIdentifier = Some ''0123456789'', institution = Some ''GTB''\<rparr>"

definition form_without_institution :: watched where
  "form_without_institution = filled_form\<lparr>institution := None\<rparr>"

definition form_other_institution :: watched where
  "form_other_institution = filled_form\<lparr>institution := Some ''ABC''\<rparr>"

definition form_other_currency :: watched where
  "form_other_currency = filled_form\<lparr>currency := Some ''KES''\<rparr>"

text \<open>
  The form with the currency alone, and with currency, amount and token but no recipient
  yet; and a component that has fetched a name, a rate and a list of institutions.
\<close>

definition form_currency_only :: watched where
  "form_currency_only = blank_form\<lparr>currency := Some ''NGN''\<rparr>"

definition form_rate_only :: watched where
  "form_rate_only =
     blank_form\<lparr>currency := Some ''NGN'', amount := Some (Fin 100), token := Some ''USDC''\<rparr>"

definition world_fetched :: world where
  "world_fetched =
     world_initial
       \<lparr>home := Home_initial
          \<lparr>Home.recipientName := ''ADA OBI'', rate := Fin 1500,
           institutions := [\<lparr>name = ''Guaranty Trust Bank'', code = ''GTB''\<rparr>]\<rparr>\<rparr>"

section \<open>Properties\<close>

lemmas fetch_defs =
  getInstitutions_def getInstitutions_call_def getInstitutions_settled_def
  getRecipientName_def getRecipientName_call_def getRecipientName_settled_def
  getRate_def getRate_call_def getRate_settled_def started_def

lemmas truthy_defs = truthy_string_def truthy_number_def

subsection \<open>Rounding to binary64\<close>

text \<open>The limit written out, for evaluation.\<close>

lemma binary64_limit_code [code]:
  "binary64_limit = 179769313486231590772930519078902473361797697894230657273430081157732675805500963132708477322407536021120113879871393357658789768814416622492847430639474124377767893424865485276302219601246094119453082952085005768838150682342462881473913110540827237163350510684586298239947245938479716304835356329624224137216"
  by (simp add: binary64_limit_def)












subsection \<open>Decimal text\<close>










lemma digits_not_Nil: "digits n \<noteq> []"
  by (subst digits.simps) simp












subsection \<open>The fee\<close>




subsection \<open>The fee while the fee details are undefined\<close>

text \<open>
  C10: a run of the fee effect with \<open>protocolFeeDetails\<close> undefined sets
  \<open>protocolFeePercent\<close> to \<open>NaN\<close> (\<open>Number(undefined) / Number(undefined)\<close>); the run after
  it sets \<open>fee\<close> to \<open>NaN\<close>, whatever the details and the amount are by then; and every run
  computes \<open>fee\<close> from the \<open>protocolFeePercent\<close> of the state it starts from, so the
  details of the same run have no influence on it.
\<close>

theorem fee_NaN_while_details_undefined:
  "protocolFeePercent (feeEffect None a s) = NaN \<and>
   fee (feeEffect d a' (feeEffect None a s)) = NaN \<and>
   fee (feeEffect d a s)
     = parseFloat (toFixed (num_times (protocolFeePercent s) (Number_number a)) 5) \<and>
   fee (feeEffect d a s) = fee (feeEffect d' a s)"
  by (simp add: feeEffect_def Number_bigint_def toFixed_def parseFloat_def is_space_def is_digit_def)

subsection \<open>View selection\<close>

text \<open>
  C2: whenever \<open>transactionStatus\<close> is not \<open>idle\<close> the page rendered is the
  transaction-status view, whatever \<open>formValues\<close> holds; and two states that agree on
  \<open>transactionStatus\<close> and \<open>formValues\<close> render the same page, so the choice is a function
  of these two values only.
\<close>

theorem status_view_whenever_not_idle:
  "(transactionStatus s \<noteq> idle \<longrightarrow> animated_page (render s) = transaction_status) \<and>
   (transactionStatus s = transactionStatus s' \<and> formValues s = formValues s'
      \<longrightarrow> animated_page (render s) = animated_page (render s'))"
  by (simp add: render_def)

theorem status_view_whenever_not_idle_witness:
  "transactionStatus (Home_initial\<lparr>transactionStatus := pending\<rparr>) \<noteq> idle \<and>
   animated_page (render (Home_initial\<lparr>transactionStatus := pending\<rparr>)) = transaction_status \<and>
   animated_page (render (Home_initial\<lparr>transactionStatus := pending\<rparr>))
     = animated_page (render (Home_initial\<lparr>transactionStatus := pending, fee := NaN\<rparr>))"
  using status_view_whenever_not_idle
    [where s = "Home_initial\<lparr>transactionStatus := pending\<rparr>"
       and s' = "Home_initial\<lparr>transactionStatus := pending, fee := NaN\<rparr>"]
  by (simp add: render_def)

text \<open>
  C3: \<open>formValues\<close> counts as empty exactly when every field is the empty string or
  zero; and with \<open>transactionStatus\<close> idle, the preview is rendered exactly when
  \<open>formValues\<close> is not empty, the form otherwise.
\<close>

theorem formValues_empty_iff:
  "(formValues_empty v \<longleftrightarrow>
      network v = '''' \<and> FormData.token v = '''' \<and> FormData.amount v = Fin 0 \<and>
      FormData.currency v = '''' \<and> FormData.institution v = '''' \<and>
      FormData.accountIdentifier v = '''' \<and> FormData.recipientName v = '''' \<and> memo v = '''') \<and>
   (transactionStatus s = idle \<longrightarrow>
      (animated_page (render s) = transaction_preview \<longleftrightarrow> \<not> formValues_empty (formValues s)) \<and>
      (animated_page (render s) = transaction_form \<longleftrightarrow> formValues_empty (formValues s)))"
  by (auto simp add: formValues_empty_def Object_values_def render_def)

theorem formValues_empty_iff_witness:
  "transactionStatus (onSubmit (INITIAL_FORM_STATE\<lparr>memo := ''rent''\<rparr>) Home_initial) = idle \<and>
   animated_page (render (onSubmit (INITIAL_FORM_STATE\<lparr>memo := ''rent''\<rparr>) Home_initial))
     = transaction_preview \<and>
   \<not> formValues_empty (INITIAL_FORM_STATE\<lparr>memo := ''rent''\<rparr>) \<and>
   formValues_empty INITIAL_FORM_STATE \<and>
   animated_page (render Home_initial) = transaction_form"
  using formValues_empty_iff
    [where v = "INITIAL_FORM_STATE\<lparr>memo := ''rent''\<rparr>"
       and s = "onSubmit (INITIAL_FORM_STATE\<lparr>memo := ''rent''\<rparr>) Home_initial"]
    formValues_empty_iff [where v = INITIAL_FORM_STATE and s = Home_initial]
  by (simp add: onSubmit_def Home_initial_def INITIAL_FORM_STATE_def)

subsection \<open>Failing fetches\<close>

text \<open>
  C7: a rejected promise never leaves its fetcher.  Whenever the recipient-name fetcher
  passes its guard (account identifier and institution present) and its request fails, it
  resets \<open>recipientName\<close> to the empty string and clears its loading flag, changes
  nothing else in the state and logs nothing.  Whenever the institutions fetcher passes
  its guard (currency present) or the rate fetcher passes its guard (currency, amount and
  token present) and the request fails, the error is appended to the console,
  \<open>institutions\<close> and \<open>rate\<close> stay as they were, and the state differs from the one
  before the call in the loading flag only.  The \<open>catch\<close> branches themselves do this in
  every state.
\<close>

theorem fetch_failures_caught:
  "(truthy_string (accountIdentifier v) \<and> truthy_string (institution v) \<longrightarrow>
      home (getRecipientName v (Reject e) w)
        = (home w)\<lparr>Home.recipientName := '''', isFetchingRecipientName := False\<rparr> \<and>
      console (getRecipientName v (Reject e) w) = console w) \<and>
   (truthy_string (currency v) \<longrightarrow>
      institutions (home (getInstitutions v (Reject e) w)) = institutions (home w) \<and>
      home (getInstitutions v (Reject e) w) = (home w)\<lparr>isFetchingInstitutions := True\<rparr> \<and>
      console (getInstitutions v (Reject e) w) = console w @ [e]) \<and>
   (truthy_string (currency v) \<and> truthy_number (amount v) \<and> truthy_string (token v) \<longrightarrow>
      rate (home (getRate v (Reject e) w)) = rate (home w) \<and>
      home (getRate v (Reject e) w) = (home w)\<lparr>isFetchingRate := True\<rparr> \<and>
      console (getRate v (Reject e) w) = console w @ [e]) \<and>
   getRecipientName_settled (Reject e) w
     = w\<lparr>home := (home w)\<lparr>Home.recipientName := '''', isFetchingRecipientName := False\<rparr>\<rparr> \<and>
   getInstitutions_settled (Reject e) w = w\<lparr>console := console w @ [e]\<rparr> \<and>
   getRate_settled (Reject e) w = w\<lparr>console := console w @ [e]\<rparr>"
proof -
  have name: "home (getRecipientName v (Reject e) w)
        = (home w)\<lparr>Home.recipientName := '''', isFetchingRecipientName := False\<rparr> \<and>
      console (getRecipientName v (Reject e) w) = console w"
    if "truthy_string (accountIdentifier v)" and "truthy_string (institution v)"
    using that
    by (auto simp add: getRecipientName_def getRecipientName_call_def
        getRecipientName_settled_def truthy_string_def split: option.splits)
  have inst: "institutions (home (getInstitutions v (Reject e) w)) = institutions (home w) \<and>
      home (getInstitutions v (Reject e) w) = (home w)\<lparr>isFetchingInstitutions := True\<rparr> \<and>
      console (getInstitutions v (Reject e) w) = console w @ [e]"
    if "truthy_string (currency v)"
    using that
    by (auto simp add: getInstitutions_def getInstitutions_call_def getInstitutions_settled_def
        truthy_string_def split: option.splits)
  have rate: "rate (home (getRate v (Reject e) w)) = rate (home w) \<and>
      home (getRate v (Reject e) w) = (home w)\<lparr>isFetchingRate := True\<rparr> \<and>
      console (getRate v (Reject e) w) = console w @ [e]"
    if "truthy_string (currency v)" and "truthy_number (amount v)" and "truthy_string (token v)"
    using that
    by (auto simp add: getRate_def getRate_call_def getRate_settled_def truthy_defs
        split: option.splits)
  have branches: "getRecipientName_settled (Reject e) w
     = w\<lparr>home := (home w)\<lparr>Home.recipientName := '''', isFetchingRecipientName := False\<rparr>\<rparr> \<and>
   getInstitutions_settled (Reject e) w = w\<lparr>console := console w @ [e]\<rparr> \<and>
   getRate_settled (Reject e) w = w\<lparr>console := console w @ [e]\<rparr>"
    by (simp add: getRecipientName_settled_def getInstitutions_settled_def getRate_settled_def)
  from name inst rate branches show ?thesis
    by blast
qed

text \<open>
  The institutions request fails with the currency alone in the form, the rate request
  with no account identifier and no institution yet, the recipient-name request with the
  whole form filled; the state holds a name, a rate and a list of institutions fetched
  before.
\<close>

theorem fetch_failures_caught_witness:
  "truthy_string (currency form_currency_only) \<and>
   \<not> truthy_string (institution form_currency_only) \<and>
   institutions (home (getInstitutions form_currency_only (Reject ''timeout'') world_fetched))
     = [\<lparr>name = ''Guaranty Trust Bank'', code = ''GTB''\<rparr>] \<and>
   console (getInstitutions form_currency_only (Reject ''timeout'') world_fetched)
     = [''timeout''] \<and>
   truthy_string (currency form_rate_only) \<and> truthy_number (amount form_rate_only) \<and>
   truthy_string (token form_rate_only) \<and> \<not> truthy_string (accountIdentifier form_rate_only) \<and>
   rate (home (getRate form_rate_only (Reject ''timeout'') world_fetched)) = Fin 1500 \<and>
   console (getRate form_rate_only (Reject ''timeout'') world_fetched) = [''timeout''] \<and>
   truthy_string (accountIdentifier filled_form) \<and> truthy_string (institution filled_form) \<and>
   Home.recipientName (home world_fetched) = ''ADA OBI'' \<and>
   Home.recipientName (home (getRecipientName filled_form (Reject ''timeout'') world_fetched))
     = '''' \<and>
   rate (home (getRecipientName filled_form (Reject ''timeout'') world_fetched)) = Fin 1500 \<and>
   console (getRecipientName filled_form (Reject ''timeout'') world_fetched) = []"
  using fetch_failures_caught
    [where v = form_currency_only and w = world_fetched and e = "''timeout''"]
    fetch_failures_caught
    [where v = form_rate_only and w = world_fetched and e = "''timeout''"]
    fetch_failures_caught
    [where v = filled_form and w = world_fetched and e = "''timeout''"]
  by (simp add: form_currency_only_def form_rate_only_def blank_form_def filled_form_def
      truthy_defs world_fetched_def world_initial_def Home_initial_def)

text \<open>
  C9: whenever the institutions fetcher passes its guard, or the rate fetcher its own,
  the loading flag is true once the request is sent and still true after the request has
  failed: the \<open>catch\<close> branch leaves the flag as it finds it.  The recipient-name fetcher
  is the only one whose flag is false after a failure.
\<close>

theorem loading_flag_after_failure:
  "(truthy_string (currency v) \<longrightarrow>
      isFetchingInstitutions (home (started (getInstitutions_call v w) w)) \<and>
      isFetchingInstitutions (home (getInstitutions v (Reject e) w))) \<and>
   (truthy_string (currency v) \<and> truthy_number (amount v) \<and> truthy_string (token v) \<longrightarrow>
      isFetchingRate (home (started (getRate_call v w) w)) \<and>
      isFetchingRate (home (getRate v (Reject e) w))) \<and>
   (truthy_string (accountIdentifier v) \<and> truthy_string (institution v) \<longrightarrow>
      isFetchingRecipientName (home (started (getRecipientName_call v w) w)) \<and>
      \<not> isFetchingRecipientName (home (getRecipientName v (Reject e) w))) \<and>
   isFetchingInstitutions (home (getInstitutions_settled (Reject e) w))
     = isFetchingInstitutions (home w) \<and>
   isFetchingRate (home (getRate_settled (Reject e) w)) = isFetchingRate (home w) \<and>
   \<not> isFetchingRecipientName (home (getRecipientName_settled (Reject e) w))"
proof -
  have inst: "isFetchingInstitutions (home (started (getInstitutions_call v w) w)) \<and>
      isFetchingInstitutions (home (getInstitutions v (Reject e) w))"
    if "truthy_string (currency v)"
    using that
    by (auto simp add: getInstitutions_def getInstitutions_call_def getInstitutions_settled_def
        started_def truthy_string_def split: option.splits)
  have rate: "isFetchingRate (home (started (getRate_call v w) w)) \<and>
      isFetchingRate (home (getRate v (Reject e) w))"
    if "truthy_string (currency v)" and "truthy_number (amount v)" and "truthy_string (token v)"
    using that
    by (auto simp add: getRate_def getRate_call_def getRate_settled_def started_def truthy_defs
        split: option.splits)
  have name: "isFetchingRecipientName (home (started (getRecipientName_call v w) w)) \<and>
      \<not> isFetchingRecipientName (home (getRecipientName v (Reject e) w))"
    if "truthy_string (accountIdentifier v)" and "truthy_string (institution v)"
    using that
    by (auto simp add: getRecipientName_def getRecipientName_call_def
        getRecipientName_settled_def started_def truthy_string_def split: option.splits)
  have branches: "isFetchingInstitutions (home (getInstitutions_settled (Reject e) w))
     = isFetchingInstitutions (home w) \<and>
   isFetchingRate (home (getRate_settled (Reject e) w)) = isFetchingRate (home w) \<and>
   \<not> isFetchingRecipientName (home (getRecipientName_settled (Reject e) w))"
    by (simp add: getRecipientName_settled_def getInstitutions_settled_def getRate_settled_def)
  from inst rate name branches show ?thesis
    by blast
qed

theorem loading_flag_after_failure_witness:
  "truthy_string (currency form_currency_only) \<and>
   \<not> truthy_string (institution form_currency_only) \<and>
   \<not> isFetchingInstitutions (home world_initial) \<and>
   isFetchingInstitutions
     (home (getInstitutions form_currency_only (Reject ''timeout'') world_initial)) \<and>
   truthy_string (currency form_rate_only) \<and> truthy_number (amount form_rate_only) \<and>
   truthy_string (token form_rate_only) \<and> \<not> truthy_string (accountIdentifier form_rate_only) \<and>
   \<not> isFetchingRate (home world_initial) \<and>
   isFetchingRate (home (getRate form_rate_only (Reject ''timeout'') world_initial)) \<and>
   truthy_string (accountIdentifier filled_form) \<and> truthy_string (institution filled_form) \<and>
   isFetchingRecipientName (home (started (getRecipientName_call filled_form world_initial)
     world_initial)) \<and>
   \<not> isFetchingRecipientName
       (home (getRecipientName filled_form (Reject ''timeout'') world_initial))"
  using loading_flag_after_failure
    [where v = form_currency_only and w = world_initial and e = "''timeout''"]
    loading_flag_after_failure
    [where v = form_rate_only and w = world_initial and e = "''timeout''"]
    loading_flag_after_failure
    [where v = filled_form and w = world_initial and e = "''timeout''"]
  by (simp add: form_currency_only_def form_rate_only_def blank_form_def filled_form_def
      truthy_defs world_initial_def Home_initial_def)

subsection \<open>Disjoint slots\<close>

lemma slots_other_step:
  "fetcher_of x \<noteq> f \<Longrightarrow> slots f (home (apply_step x w)) = slots f (home w)"
  by (cases x; cases f)
     (auto simp add: fetch_defs split: option.splits outcome.splits)

lemma slots_step_cong:
  "slots f (home w1) = slots f (home w2) \<Longrightarrow>
   slots f (home (apply_step x w1)) = slots f (home (apply_step x w2))"
  by (cases x; cases f)
     (auto simp add: fetch_defs split: option.splits outcome.splits)

lemma outside_slots_step:
  "outside_slots (home (apply_step x w)) = outside_slots (home w)"
  by (cases x)
     (auto simp add: fetch_defs outside_slots_def split: option.splits outcome.splits)

lemma slots_fold_cong:
  "slots f (home w1) = slots f (home w2) \<Longrightarrow>
   slots f (home (fold apply_step xs w1)) = slots f (home (fold apply_step xs w2))"
proof (induction xs arbitrary: w1 w2)
  case Nil
  then show ?case by simp
next
  case (Cons x xs)
  from Cons.prems have "slots f (home (apply_step x w1)) = slots f (home (apply_step x w2))"
    by (rule slots_step_cong)
  then have "slots f (home (fold apply_step xs (apply_step x w1)))
             = slots f (home (fold apply_step xs (apply_step x w2)))"
    by (rule Cons.IH)
  then show ?case by simp
qed

text \<open>What a fetcher's slots hold at the end depends on that fetcher's own steps only.\<close>

lemma slots_interleaving:
  "slots f (home (interleaving xs w)) = slots f (home (interleaving (steps_of f xs) w))"
  unfolding interleaving_def steps_of_def
proof (induction xs arbitrary: w)
  case Nil
  show ?case by simp
next
  case (Cons x xs)
  show ?case
  proof (cases "fetcher_of x = f")
    case True
    then show ?thesis using Cons.IH [of "apply_step x w"] by simp
  next
    case False
    have "slots f (home (fold apply_step (filter (\<lambda>x. fetcher_of x = f) xs) (apply_step x w)))
          = slots f (home (fold apply_step (filter (\<lambda>x. fetcher_of x = f) xs) w))"
      by (rule slots_fold_cong) (simp add: slots_other_step False)
    with Cons.IH [of "apply_step x w"] False show ?thesis by simp
  qed
qed

lemma outside_slots_interleaving:
  "outside_slots (home (interleaving xs w)) = outside_slots (home w)"
  unfolding interleaving_def
  by (induction xs arbitrary: w) (simp_all add: outside_slots_step)

lemma Home_eq_from_slots:
  assumes "slots Institutions a = slots Institutions b"
    and "slots RecipientName a = slots RecipientName b"
    and "slots Rate a = slots Rate b"
    and "outside_slots a = outside_slots b"
  shows "a = b"
  using assms by (cases a; cases b) (simp add: outside_slots_def)

lemma settled_frame:
  "(home (getInstitutions_settled ri w))\<lparr>institutions := i, isFetchingInstitutions := b\<rparr>
     = (home w)\<lparr>institutions := i, isFetchingInstitutions := b\<rparr> \<and>
   (home (getRecipientName_settled rn w))\<lparr>Home.recipientName := n, isFetchingRecipientName := b\<rparr>
     = (home w)\<lparr>Home.recipientName := n, isFetchingRecipientName := b\<rparr> \<and>
   (home (getRate_settled rr w))\<lparr>rate := r, isFetchingRate := b\<rparr>
     = (home w)\<lparr>rate := r, isFetchingRate := b\<rparr>"
  by (simp add: fetch_defs split: outcome.splits)

text \<open>
  C8: the settling of the institutions fetcher changes nothing but \<open>institutions\<close> and
  \<open>isFetchingInstitutions\<close>, that of the recipient-name fetcher nothing but
  \<open>recipientName\<close> and \<open>isFetchingRecipientName\<close>, that of the rate fetcher nothing but
  \<open>rate\<close> and \<open>isFetchingRate\<close> (the states are equal once the two slots are
  overwritten); and two interleavings in which each fetcher takes the same steps in the
  same order end in the same state.
\<close>

theorem fetchers_write_disjoint_slots:
  "(home (getInstitutions_settled ri w))\<lparr>institutions := i, isFetchingInstitutions := b\<rparr>
     = (home w)\<lparr>institutions := i, isFetchingInstitutions := b\<rparr> \<and>
   (home (getRecipientName_settled rn w))\<lparr>Home.recipientName := n, isFetchingRecipientName := b\<rparr>
     = (home w)\<lparr>Home.recipientName := n, isFetchingRecipientName := b\<rparr> \<and>
   (home (getRate_settled rr w))\<lparr>rate := r, isFetchingRate := b\<rparr>
     = (home w)\<lparr>rate := r, isFetchingRate := b\<rparr> \<and>
   (steps_of Institutions xs = steps_of Institutions ys \<and>
    steps_of RecipientName xs = steps_of RecipientName ys \<and>
    steps_of Rate xs = steps_of Rate ys
      \<longrightarrow> home (interleaving xs w) = home (interleaving ys w))"
proof -
  have "home (interleaving xs w) = home (interleaving ys w)"
    if same: "steps_of Institutions xs = steps_of Institutions ys"
      "steps_of RecipientName xs = steps_of RecipientName ys"
      "steps_of Rate xs = steps_of Rate ys"
  proof (rule Home_eq_from_slots)
    show "slots Institutions (home (interleaving xs w))
          = slots Institutions (home (interleaving ys w))"
      using slots_interleaving [of Institutions xs w] slots_interleaving [of Institutions ys w]
        same(1)
      by simp
    show "slots RecipientName (home (interleaving xs w))
          = slots RecipientName (home (interleaving ys w))"
      using slots_interleaving [of RecipientName xs w] slots_interleaving [of RecipientName ys w]
        same(2)
      by simp
    show "slots Rate (home (interleaving xs w)) = slots Rate (home (interleaving ys w))"
      using slots_interleaving [of Rate xs w] slots_interleaving [of Rate ys w] same(3)
      by simp
    show "outside_slots (home (interleaving xs w)) = outside_slots (home (interleaving ys w))"
      by (simp add: outside_slots_interleaving)
  qed
  then show ?thesis
    using settled_frame
      [where ri = ri and w = w and i = i and b = b and rn = rn and n = n and rr = rr and r = r]
    by simp
qed

theorem fetchers_write_disjoint_slots_witness:
  "steps_of Institutions
     [institutions_call filled_form, rate_call filled_form,
      institutions_settled (Reject ''timeout''), rate_settled (Resolve (Fin 1500))]
   = steps_of Institutions
     [rate_call filled_form, rate_settled (Resolve (Fin 1500)),
      institutions_call filled_form, institutions_settled (Reject ''timeout'')] \<and>
   steps_of RecipientName
     [institutions_call filled_form, rate_call filled_form,
      institutions_settled (Reject ''timeout''), rate_settled (Resolve (Fin 1500))]
   = steps_of RecipientName
     [rate_call filled_form, rate_settled (Resolve (Fin 1500)),
      institutions_call filled_form, institutions_settled (Reject ''timeout'')] \<and>
   steps_of Rate
     [institutions_call filled_form, rate_call filled_form,
      institutions_settled (Reject ''timeout''), rate_settled (Resolve (Fin 1500))]
   = steps_of Rate
     [rate_call filled_form, rate_settled (Resolve (Fin 1500)),
      institutions_call filled_form, institutions_settled (Reject ''timeout'')] \<and>
   home (interleaving
     [institutions_call filled_form, rate_call filled_form,
      institutions_settled (Reject ''timeout''), rate_settled (Resolve (Fin 1500))]
     world_initial)
   = home (interleaving
     [rate_call filled_form, rate_settled (Resolve (Fin 1500)),
      institutions_call filled_form, institutions_settled (Reject ''timeout'')]
     world_initial)"
  using fetchers_write_disjoint_slots
    [where w = world_initial
       and xs = "[institutions_call filled_form, rate_call filled_form,
          institutions_settled (Reject ''timeout''), rate_settled (Resolve (Fin 1500))]"
       and ys = "[rate_call filled_form, rate_settled (Resolve (Fin 1500)),
          institutions_call filled_form, institutions_settled (Reject ''timeout'')]"]
  by (simp add: steps_of_def)

subsection \<open>The rate request\<close>

lemmas world_defs =
  run_def commit_def elapse_def fire_def run_callback_def
  institutions_effect_def recipientName_effect_def rate_effect_def
  recipientName_cleanup_def rate_cleanup_def pageLoading_effect_def
  debounceFetchRecipientName_def debounceFetchRate_def setTimeout_def clearTimeout_def
  institutions_deps_changed_def recipientName_deps_changed_def rate_deps_changed_def
  getInstitutions_call_def getRecipientName_call_def getRate_call_def started_def
  truthy_string_def truthy_number_def world_initial_def
  blank_form_def filled_form_def form_without_institution_def form_other_institution_def
  form_other_currency_def institutions_requests_def

text \<open>
  Whenever \<open>getRate\<close> passes its guard, the request it sends carries the watched amount
  and currency and the token \<open>USDT\<close>, whatever token is selected.
\<close>

lemma rate_request_token:
  assumes "getRate_call v w = Some w'"
  shows "\<exists>a c. amount v = Some a \<and> currency v = Some c \<and>
           outbound w' = outbound w @ [(now w, fetchRate ''USDT'' a c)]"
  using assms
  by (auto simp add: getRate_call_def split: if_splits option.splits)

text \<open>
  C4: the page is mounted, and 2000 ms later the form holds naira, 100 and the token
  USDC.  The rate fetch fires 1000 ms after that, with the current amount and currency,
  but its request names the token USDT, not the token selected.
\<close>

theorem rate_request_names_USDT:
  "token filled_form = Some ''USDC'' \<and>
   outbound (run [Render blank_form, Elapse 2000, Render filled_form, Elapse 1000] world_initial)
   = [(2000, fetchSupportedInstitutions ''NGN''),
      (3000, fetchAccountName ''GTB'' ''0123456789''),
      (3000, fetchRate ''USDT'' (Fin 100) ''NGN'')]"
  by (simp add: world_defs Let_def)

subsection \<open>The institutions fetcher and time\<close>

lemma institutions_requests_append:
  "filter is_institutions_request (xs @ [(t, fetchSupportedInstitutions c)])
   = filter is_institutions_request xs @ [(t, fetchSupportedInstitutions c)]"
  "filter is_institutions_request (xs @ [(t, fetchAccountName i a)])
   = filter is_institutions_request xs"
  "filter is_institutions_request (xs @ [(t, fetchRate k n c)])
   = filter is_institutions_request xs"
  by simp_all

lemma timer_effects_unchanged:
  "outbound (recipientName_cleanup w) = outbound w"
  "outbound (rate_cleanup w) = outbound w"
  "outbound (recipientName_effect v w) = outbound w"
  "outbound (rate_effect v w) = outbound w"
  "outbound (pageLoading_effect w) = outbound w"
  "now (recipientName_cleanup w) = now w"
  "now (rate_cleanup w) = now w"
  "now (recipientName_effect v w) = now w"
  "now (rate_effect v w) = now w"
  "now (pageLoading_effect w) = now w"
  by (simp_all add: recipientName_effect_def
      rate_effect_def recipientName_cleanup_def rate_cleanup_def pageLoading_effect_def
      debounceFetchRecipientName_def debounceFetchRate_def setTimeout_def clearTimeout_def)

lemma institutions_effect_outbound:
  "outbound (institutions_effect v w)
   = outbound w @
     (case currency v of
        None \<Rightarrow> []
      | Some c \<Rightarrow> if c \<noteq> [] then [(now w, fetchSupportedInstitutions c)] else [])"
  by (simp add: institutions_effect_def getInstitutions_call_def started_def truthy_string_def
      split: option.splits)

lemma institutions_effect_now: "now (institutions_effect v w) = now w"
  by (simp add: institutions_effect_def getInstitutions_call_def started_def
      split: option.splits)

lemma commit_now: "now (commit v w) = now w"
  by (simp add: commit_def Let_def timer_effects_unchanged institutions_effect_now)

lemma commit_rendered_with: "rendered_with (commit v w) = Some v"
  by (simp add: commit_def Let_def)

lemma commit_outbound:
  "outbound (commit v w)
   = outbound w @
     (case currency v of
        None \<Rightarrow> []
      | Some c \<Rightarrow>
          if c \<noteq> [] \<and> institutions_deps_changed (rendered_with w) v
          then [(now w, fetchSupportedInstitutions c)] else [])"
  by (cases "rendered_with w")
     (simp_all add: commit_def Let_def timer_effects_unchanged institutions_effect_outbound
        institutions_deps_changed_def split: option.splits)

lemma commit_institutions_requests:
  "institutions_requests (commit v w)
   = institutions_requests w @
     (case currency v of
        None \<Rightarrow> []
      | Some c \<Rightarrow>
          if c \<noteq> [] \<and> institutions_deps_changed (rendered_with w) v
          then [(now w, fetchSupportedInstitutions c)] else [])"
  by (simp add: institutions_requests_def commit_outbound split: option.splits)

lemma fire_institutions_requests:
  "institutions_requests (fire t w) = institutions_requests w"
  by (cases "callback t")
     (simp_all add: fire_def run_callback_def institutions_requests_def started_def
        getRecipientName_call_def getRate_call_def split: option.splits)

lemma fire_rendered_with: "rendered_with (fire t w) = rendered_with w"
  by (cases "callback t")
     (simp_all add: fire_def run_callback_def started_def
        getRecipientName_call_def getRate_call_def split: option.splits)

lemma fold_fire_unchanged:
  "institutions_requests (fold fire ts w) = institutions_requests w \<and>
   rendered_with (fold fire ts w) = rendered_with w"
  by (induction ts arbitrary: w)
     (simp_all add: fire_institutions_requests fire_rendered_with)

lemma elapse_unchanged:
  "institutions_requests (elapse d w) = institutions_requests w"
  "rendered_with (elapse d w) = rendered_with w"
  "now (elapse d w) = now w + d"
  using fold_fire_unchanged
    [of "sort_key due (filter (\<lambda>t. due t \<le> now w + d) (timers w))"
        "w\<lparr>timers := filter (\<lambda>t. \<not> due t \<le> now w + d) (timers w)\<rparr>"]
  by (simp_all add: elapse_def Let_def institutions_requests_def)

lemma settled_unchanged:
  "institutions_requests (getInstitutions_settled ri w) = institutions_requests w"
  "rendered_with (getInstitutions_settled ri w) = rendered_with w"
  "now (getInstitutions_settled ri w) = now w"
  "institutions_requests (getRecipientName_settled rn w) = institutions_requests w"
  "rendered_with (getRecipientName_settled rn w) = rendered_with w"
  "now (getRecipientName_settled rn w) = now w"
  "institutions_requests (getRate_settled rr w) = institutions_requests w"
  "rendered_with (getRate_settled rr w) = rendered_with w"
  "now (getRate_settled rr w) = now w"
  by (simp_all add: getInstitutions_settled_def getRecipientName_settled_def getRate_settled_def
      institutions_requests_def split: outcome.splits)

lemma institutions_requests_run:
  "institutions_requests (run es w)
   = institutions_requests w @ immediate_institutions_fetches es (now w) (rendered_with w)"
  unfolding run_def
proof (induction es arbitrary: w)
  case Nil
  show ?case by simp
next
  case (Cons e es)
  show ?case
  proof (cases e)
    case (Render v)
    then show ?thesis
      using Cons.IH [of "commit v w"]
      by (simp add: commit_now commit_rendered_with commit_institutions_requests)
  next
    case (Elapse d)
    then show ?thesis
      using Cons.IH [of "elapse d w"] by (simp add: elapse_unchanged)
  next
    case (Institutions_settle r)
    then show ?thesis
      using Cons.IH [of "getInstitutions_settled r w"] by (simp add: settled_unchanged)
  next
    case (RecipientName_settle r)
    then show ?thesis
      using Cons.IH [of "getRecipientName_settled r w"] by (simp add: settled_unchanged)
  next
    case (Rate_settle r)
    then show ?thesis
      using Cons.IH [of "getRate_settled r w"] by (simp add: settled_unchanged)
  qed
qed

text \<open>
  C5, as the claim states it, fails: two changes of currency 100 ms apart send two
  institutions requests, one at each change, though no 1000 ms have passed without a
  change.
\<close>

theorem institutions_fetch_not_debounced:
  "institutions_requests
     (run [Render blank_form, Elapse 2000, Render filled_form, Elapse 100,
           Render form_other_currency] world_initial)
   = [(2000, fetchSupportedInstitutions ''NGN''), (2100, fetchSupportedInstitutions ''KES'')]"
  by (simp add: world_defs Let_def)

text \<open>
  C5, amended: for every sequence of renders, waits and settled promises, the institutions
  requests sent are one for each render whose currency is non-empty and differs from the
  currency of the render before, sent at the time of that render, and no others; and the
  institutions effect leaves the timer table as it is: it cancels and schedules nothing.
\<close>

theorem institutions_fetch_without_timer:
  "institutions_requests (run es w)
   = institutions_requests w @ immediate_institutions_fetches es (now w) (rendered_with w) \<and>
   timers (institutions_effect v w) = timers w"
  by (simp add: institutions_requests_run institutions_effect_def getInstitutions_call_def
      started_def split: option.splits)

subsection \<open>The recipient-name fetcher and the institution\<close>

text \<open>
  A render in which the institution is all that changed runs no effect: the timer table,
  the requests and the state stay as they are.
\<close>

lemma commit_institution_change_only:
  assumes "rendered_with w = Some p"
    and "accountIdentifier v = accountIdentifier p" and "currency v = currency p"
    and "amount v = amount p" and "token v = token p"
  shows "commit v w = w\<lparr>rendered_with := Some v\<rparr>"
  using assms
  by (simp add: commit_def Let_def institutions_deps_changed_def recipientName_deps_changed_def
      rate_deps_changed_def)

text \<open>
  C6: with the account identifier and the institution both present, changing the
  institution alone schedules no recipient-name fetch: 5000 ms after the change, the only
  account-name request is the one sent for the first institution, and no timer is
  pending.
\<close>

theorem institution_change_schedules_nothing:
  "outbound (run [Render blank_form, Elapse 2000, Render filled_form, Elapse 1000,
                  Render form_other_institution, Elapse 5000] world_initial)
   = [(2000, fetchSupportedInstitutions ''NGN''),
      (3000, fetchAccountName ''GTB'' ''0123456789''),
      (3000, fetchRate ''USDT'' (Fin 100) ''NGN'')] \<and>
   timers (run [Render blank_form, Elapse 2000, Render filled_form, Elapse 1000,
                Render form_other_institution, Elapse 5000] world_initial) = []"
  by (simp add: world_defs Let_def)

text \<open>
  The same defect when the account identifier is entered before the institution is
  chosen: the timer set for the account identifier fires with the institution still
  undefined and returns at the guard, and choosing the institution afterwards schedules
  nothing, so no account-name request is sent at all.
\<close>

lemma institution_chosen_last_never_fetches:
  "outbound (run [Render blank_form, Elapse 2000, Render form_without_institution, Elapse 500,
                  Render filled_form, Elapse 5000] world_initial)
   = [(2000, fetchSupportedInstitutions ''NGN''),
      (3000, fetchRate ''USDT'' (Fin 100) ''NGN'')]"
  by (simp add: world_defs Let_def)

end
